theory Spec2Isabelle
  imports Main "HOL-Library.Word"
begin

section \<open>Configuration loading of dnscrypt-proxy (config.go)\<close>

text \<open>
  A shallow embedding of \<^verbatim>\<open>src/dnscrypt-proxy/config.go\<close>: the structs \<^verbatim>\<open>Config\<close>,
  \<^verbatim>\<open>ServerConfig\<close>, \<^verbatim>\<open>SourceConfig\<close>, the defaults of \<^verbatim>\<open>newConfig\<close>, the function
  \<^verbatim>\<open>includesName\<close> and the function \<^verbatim>\<open>ConfigLoad\<close>.

  Conventions.
  \<^item> Go's \<^verbatim>\<open>int\<close> is taken at 64 bits and \<^verbatim>\<open>time.Duration\<close> is an \<^verbatim>\<open>int64\<close> of
    nanoseconds: both are \<open>64 word\<close>, compared as signed numbers through \<open>sint\<close>.
  \<^item> A Go \<^verbatim>\<open>error\<close> is its message, a \<open>string\<close>. A call returning \<^verbatim>\<open>(T, error)\<close> is a
    value of \<open>string + T\<close>, \<open>Inl\<close> carrying the error.
  \<^item> The two Go maps of \<^verbatim>\<open>Config\<close> are association lists. The order of the list is the
    order in which the single \<^verbatim>\<open>range\<close> statement over that map visits it (Go leaves that
    order unspecified, so every order is a possible run); an indexed read
    \<^verbatim>\<open>m[key]\<close> is \<open>map_of\<close>, which compares keys by equality.
  \<^item> \<^verbatim>\<open>ConfigLoad\<close> writes through the pointer \<^verbatim>\<open>proxy\<close> and to the logger \<^verbatim>\<open>dlog\<close>: the
    model passes a state holding the fields of the proxy and the lines logged, and returns
    it together with the outcome of the call.
\<close>

subsection \<open>Data\<close>

type_synonym go_int = "64 word"
type_synonym duration = "64 word"

definition Millisecond :: duration where
  "Millisecond = 1000000"

definition Minute :: duration where
  "Minute = 60000000000"

definition Hour :: duration where
  "Hour = 3600000000000"

record ServerConfig =
  Stamp :: string
  ProviderName :: string
  Address :: string
  PublicKey :: string
  NoLog :: bool
  DNSSEC :: bool

record SourceConfig =
  URL :: string
  MinisignKeyStr :: string
  CacheFile :: string
  FormatStr :: string
  RefreshDelay :: go_int

record Config =
  ServerNames :: "string list"
  ListenAddresses :: "string list"
  Daemonize :: bool
  ForceTCP :: bool
  Timeout :: go_int
  CertRefreshDelay :: go_int
  BlockIPv6 :: bool
  Cache :: bool
  CacheSize :: go_int
  CacheNegTTL :: "32 word"
  CacheMinTTL :: "32 word"
  CacheMaxTTL :: "32 word"
  ServersConfig :: "(string \<times> ServerConfig) list"
  SourcesConfig :: "(string \<times> SourceConfig) list"

definition newConfig :: Config where
  "newConfig =
     \<lparr>ServerNames = [], ListenAddresses = [''127.0.0.1:53''], Daemonize = False,
      ForceTCP = False, Timeout = 2500, CertRefreshDelay = 30, BlockIPv6 = False,
      Cache = True, CacheSize = 256, CacheNegTTL = 60, CacheMinTTL = 60,
      CacheMaxTTL = 8600, ServersConfig = [], SourcesConfig = []\<rparr>"

text \<open>
  \<^verbatim>\<open>RegisteredServer\<close>, \<^verbatim>\<open>ServerStamp\<close> and \<^verbatim>\<open>Proxy\<close> are declared in other files of the
  package. \<^verbatim>\<open>ConfigLoad\<close> uses the two fields of a registered server and the twelve
  fields of the proxy listed here; a stamp is opaque to it, so its type is a parameter.
\<close>

record 'stamp RegisteredServer =
  name :: string
  stamp :: 'stamp

datatype severity = SeverityInfo | SeverityCritical | SeverityFatal

record 'stamp Proxy =
  timeout :: duration
  mainProto :: string
  certRefreshDelay :: duration
  listenAddresses :: "string list"
  daemonize :: bool
  pluginBlockIPv6 :: bool
  cache :: bool
  cacheSize :: go_int
  cacheNegTTL :: "32 word"
  cacheMinTTL :: "32 word"
  cacheMaxTTL :: "32 word"
  registeredServers :: "'stamp RegisteredServer list"
  dlog :: "(severity \<times> string) list"

text \<open>
  The last field is not a field of the Go struct: it is the output of the logger
  \<^verbatim>\<open>dlog\<close>, one pair of severity and message for each call, oldest first.
\<close>

text \<open>
  What \<^verbatim>\<open>ConfigLoad\<close> calls and does not define: the command line read by
  \<^verbatim>\<open>flag.Parse\<close> (the value given to \<^verbatim>\<open>-config\<close>, if any), \<^verbatim>\<open>toml.DecodeFile\<close> (which
  writes the values of the file over the configuration it is given),
  \<^verbatim>\<open>NewSource\<close>, the method \<^verbatim>\<open>Parse\<close> of a source, \<^verbatim>\<open>NewServerStampFromLegacy\<close> and
  \<^verbatim>\<open>strings.EqualFold\<close>. They are parameters of the model.
\<close>

record ('src, 'stamp) env =
  config_flag :: "string option"
  DecodeFile :: "string \<Rightarrow> Config \<Rightarrow> string + Config"
  NewSource :: "string \<Rightarrow> string \<Rightarrow> string \<Rightarrow> string \<Rightarrow> duration \<Rightarrow> string + 'src"
  Parse :: "'src \<Rightarrow> string + 'stamp RegisteredServer list"
  NewServerStampFromLegacy :: "string \<Rightarrow> string \<Rightarrow> string \<Rightarrow> string + 'stamp"
  EqualFold :: "string \<Rightarrow> string \<Rightarrow> bool"

text \<open>
  How a run of \<^verbatim>\<open>ConfigLoad\<close>, or of one of its loops, ends: it reaches its end
  (\<^verbatim>\<open>return nil\<close> for the function), it returns an error, or \<^verbatim>\<open>dlog.Fatal\<close> ends the
  process.
\<close>

datatype outcome = Completed | Returned string | Exited

subsection \<open>includesName\<close>

fun includesName :: "(string \<Rightarrow> string \<Rightarrow> bool) \<Rightarrow> string list \<Rightarrow> string \<Rightarrow> bool" where
  "includesName eqf [] n = False"
| "includesName eqf (found # names) n =
     (if eqf found n then True else includesName eqf names n)"

subsection \<open>The parts of ConfigLoad\<close>

text \<open>Lines 62 to 63: the file read is the one the flag \<^verbatim>\<open>-config\<close> names.\<close>

definition configFile :: "('src, 'stamp) env \<Rightarrow> string" where
  "configFile e =
     (case config_flag e of None \<Rightarrow> ''dnscrypt-proxy.toml'' | Some p \<Rightarrow> p)"

text \<open>Lines 68 to 73, before the check of the listen addresses.\<close>

definition set_transport :: "Config \<Rightarrow> 'stamp Proxy \<Rightarrow> 'stamp Proxy" where
  "set_transport config st =
     st\<lparr>timeout := Timeout config * Millisecond,
        mainProto := (if ForceTCP config then ''tcp'' else ''udp''),
        certRefreshDelay := CertRefreshDelay config * Minute\<rparr>"

text \<open>Lines 77 to 84, after it.\<close>

definition set_options :: "Config \<Rightarrow> 'stamp Proxy \<Rightarrow> 'stamp Proxy" where
  "set_options config st =
     st\<lparr>listenAddresses := ListenAddresses config,
        daemonize := Daemonize config,
        pluginBlockIPv6 := BlockIPv6 config,
        cache := Cache config,
        cacheSize := CacheSize config,
        cacheNegTTL := CacheNegTTL config,
        cacheMinTTL := CacheMinTTL config,
        cacheMaxTTL := CacheMaxTTL config\<rparr>"

text \<open>Lines 85 to 89: the value of \<^verbatim>\<open>config.ServerNames\<close> the two loops then read.\<close>

fun append_keys :: "string list \<Rightarrow> (string \<times> ServerConfig) list \<Rightarrow> string list" where
  "append_keys names [] = names"
| "append_keys names ((serverName, serverConfig) # rest) =
     append_keys (names @ [serverName]) rest"

definition wantedNames :: "Config \<Rightarrow> string list" where
  "wantedNames config =
     (if length (ServerNames config) = 0
      then append_keys (ServerNames config) (ServersConfig config)
      else ServerNames config)"

text \<open>Lines 116 to 122: the loop over the servers a source has parsed.\<close>

fun register_servers ::
  "(string \<Rightarrow> string \<Rightarrow> bool) \<Rightarrow> string list \<Rightarrow> 'stamp RegisteredServer list \<Rightarrow>
   'stamp Proxy \<Rightarrow> 'stamp Proxy" where
  "register_servers eqf names [] st = st"
| "register_servers eqf names (registeredServer # rest) st =
     (if \<not> includesName eqf names (name registeredServer)
      then register_servers eqf names rest st
      else register_servers eqf names rest
             (st\<lparr>registeredServers := registeredServers st @ [registeredServer],
                 dlog := dlog st @
                   [(SeverityInfo,
                     ''Adding ['' @ name registeredServer @ ''] to the set of wanted resolvers'')]\<rparr>))"

text \<open>Lines 90 to 123: the loop over the declared sources.\<close>

definition refresh_delay :: "SourceConfig \<Rightarrow> duration" where
  "refresh_delay source =
     (if sint (RefreshDelay source) \<le> 0 then 24 else RefreshDelay source) * Hour"

definition unable_use :: "string \<Rightarrow> string \<Rightarrow> severity \<times> string" where
  "unable_use sourceName err =
     (SeverityCritical, ''Unable use source ['' @ sourceName @ '']: ['' @ err @ '']'')"

fun sources_loop ::
  "('src, 'stamp) env \<Rightarrow> string list \<Rightarrow> (string \<times> SourceConfig) list \<Rightarrow>
   'stamp Proxy \<Rightarrow> outcome \<times> 'stamp Proxy" where
  "sources_loop e names [] st = (Completed, st)"
| "sources_loop e names ((sourceName, source) # rest) st =
     (if URL source = [] then
        (Returned (''Missing URL for source ['' @ sourceName @ '']''), st)
      else if MinisignKeyStr source = [] then
        (Returned (''Missing Minisign key for source ['' @ sourceName @ '']''), st)
      else if CacheFile source = [] then
        (Returned (''Missing cache file for source ['' @ sourceName @ '']''), st)
      else if FormatStr source = [] then
        (Returned (''Missing format for source ['' @ sourceName @ '']''), st)
      else
        (case NewSource e (URL source) (MinisignKeyStr source) (CacheFile source)
                (FormatStr source) (refresh_delay source) of
           Inl err \<Rightarrow>
             sources_loop e names rest (st\<lparr>dlog := dlog st @ [unable_use sourceName err]\<rparr>)
         | Inr src \<Rightarrow>
             (case Parse e src of
                Inl err \<Rightarrow>
                  sources_loop e names rest
                    (st\<lparr>dlog := dlog st @ [unable_use sourceName err]\<rparr>)
              | Inr servers \<Rightarrow>
                  sources_loop e names rest
                    (register_servers (EqualFold e) names servers st))))"

text \<open>Lines 124 to 141: the loop over the wanted names.\<close>

fun servers_loop ::
  "('src, 'stamp) env \<Rightarrow> (string \<times> ServerConfig) list \<Rightarrow> string list \<Rightarrow>
   'stamp Proxy \<Rightarrow> outcome \<times> 'stamp Proxy" where
  "servers_loop e servers [] st = (Completed, st)"
| "servers_loop e servers (serverName # rest) st =
     (case map_of servers serverName of
        None \<Rightarrow> servers_loop e servers rest st
      | Some serverConfig \<Rightarrow>
          (if length (Stamp serverConfig) > 0 then
             (Exited, st\<lparr>dlog := dlog st @
                         [(SeverityFatal, ''Stamps are not implemented yet'')]\<rparr>)
           else
             (case NewServerStampFromLegacy e (Address serverConfig)
                     (PublicKey serverConfig) (ProviderName serverConfig) of
                Inl err \<Rightarrow> (Returned err, st)
              | Inr stamp' \<Rightarrow>
                  servers_loop e servers rest
                    (st\<lparr>registeredServers := registeredServers st @
                         [\<lparr>name = serverName, stamp = stamp'\<rparr>]\<rparr>))))"

text \<open>Lines 142 to 145.\<close>

definition check_servers :: "'stamp Proxy \<Rightarrow> outcome \<times> 'stamp Proxy" where
  "check_servers st =
     (if length (registeredServers st) = 0
      then (Returned ''No servers configured'', st)
      else (Completed, st))"

subsection \<open>ConfigLoad\<close>

definition ConfigLoad ::
  "('src, 'stamp) env \<Rightarrow> 'stamp Proxy \<Rightarrow> string \<Rightarrow> outcome \<times> 'stamp Proxy" where
  "ConfigLoad e proxy config_file =
     (case DecodeFile e (configFile e) newConfig of
        Inl err \<Rightarrow> (Returned err, proxy)
      | Inr config \<Rightarrow>
          (let st1 = set_transport config proxy in
           if length (ListenAddresses config) = 0 then
             (Returned ''No local IP/port configured'', st1)
           else
             (let st2 = set_options config st1;
                  names = wantedNames config
              in case sources_loop e names (SourcesConfig config) st2 of
                   (Completed, st3) \<Rightarrow>
                     (case servers_loop e (ServersConfig config) names st3 of
                        (Completed, st4) \<Rightarrow> check_servers st4
                      | (Returned err, st4) \<Rightarrow> (Returned err, st4)
                      | (Exited, st4) \<Rightarrow> (Exited, st4))
                 | (Returned err, st3) \<Rightarrow> (Returned err, st3)
                 | (Exited, st3) \<Rightarrow> (Exited, st3))))"

subsection \<open>Instances for the examples\<close>

text \<open>
  An instance of \<^verbatim>\<open>strings.EqualFold\<close> for the examples: equality of two strings after
  the letters \<^verbatim>\<open>A\<close> to \<^verbatim>\<open>Z\<close> (codes 65 to 90) are put in lower case, by setting the
  bit of value 32. On strings of ASCII characters this is what \<^verbatim>\<open>strings.EqualFold\<close>
  computes.
\<close>

definition ascii_lower :: "char \<Rightarrow> char" where
  "ascii_lower c =
     (if 65 \<le> (of_char c :: nat) \<and> (of_char c :: nat) \<le> 90
      then (case c of Char b0 b1 b2 b3 b4 b5 b6 b7 \<Rightarrow> Char b0 b1 b2 b3 b4 True b6 b7)
      else c)"

definition ascii_EqualFold :: "string \<Rightarrow> string \<Rightarrow> bool" where
  "ascii_EqualFold s t = (map ascii_lower s = map ascii_lower t)"

text \<open>
  A world for the examples. A stamp is the triple of legacy fields it was built from,
  and building it fails when one of them is empty. A source is its URL; only the
  format \<^verbatim>\<open>v1\<close> can be constructed, and only the list at
  \<^verbatim>\<open>https://example.com/v1.csv\<close> parses: it holds the servers \<^verbatim>\<open>A\<close> and \<^verbatim>\<open>c\<close>. The
  argument \<open>files\<close> gives, for the path of a readable configuration file, the
  configuration the decoder leaves.
\<close>

type_synonym demo_stamp = "string \<times> string \<times> string"

text \<open>
  A proxy as \<^verbatim>\<open>Proxy{}\<close> leaves it, and nothing logged yet.
\<close>

definition proxy0 :: "demo_stamp Proxy" where
  "proxy0 =
     \<lparr>timeout = 0, mainProto = [], certRefreshDelay = 0, listenAddresses = [],
      daemonize = False, pluginBlockIPv6 = False, cache = False, cacheSize = 0,
      cacheNegTTL = 0, cacheMinTTL = 0, cacheMaxTTL = 0, registeredServers = [],
      dlog = []\<rparr>"

definition demo_servers :: "demo_stamp RegisteredServer list" where
  "demo_servers =
     [\<lparr>name = ''A'', stamp = (''9.9.9.9:443'', ''AAAA'', ''a.example'')\<rparr>,
      \<lparr>name = ''c'', stamp = (''8.8.8.8:443'', ''CCCC'', ''c.example'')\<rparr>]"

definition demo_env :: "(string \<Rightarrow> Config option) \<Rightarrow> (string, demo_stamp) env" where
  "demo_env files =
     \<lparr>config_flag = None,
      DecodeFile = (\<lambda>path config.
         case files path of
           None \<Rightarrow> Inl (''open '' @ path @ '': no such file or directory'')
         | Some decoded \<Rightarrow> Inr decoded),
      NewSource = (\<lambda>url key cacheFile format delay.
         if format = ''v1'' then Inr url else Inl ''Unsupported source format''),
      Parse = (\<lambda>src.
         if src = ''https://example.com/v1.csv'' then Inr demo_servers
         else Inl ''Invalid signature''),
      NewServerStampFromLegacy = (\<lambda>address publicKey providerName.
         if address = [] \<or> publicKey = [] \<or> providerName = []
         then Inl ''Invalid stamp'' else Inr (address, publicKey, providerName)),
      EqualFold = ascii_EqualFold\<rparr>"

definition demo_server :: "string \<Rightarrow> string \<Rightarrow> ServerConfig" where
  "demo_server stampString address =
     \<lparr>Stamp = stampString, ProviderName = ''p.example'', Address = address,
      PublicKey = ''ABCD'', NoLog = False, DNSSEC = False\<rparr>"

definition demo_source :: "string \<Rightarrow> string \<Rightarrow> go_int \<Rightarrow> SourceConfig" where
  "demo_source url format delay =
     \<lparr>URL = url, MinisignKeyStr = ''RWQ'', CacheFile = ''cache.csv'', FormatStr = format,
      RefreshDelay = delay\<rparr>"

text \<open>
  The four required fields of a declared source, and the error of the first one that is
  missing, in the order URL, Minisign key, cache file, format.
\<close>

definition fields_present :: "SourceConfig \<Rightarrow> bool" where
  "fields_present source =
     (URL source \<noteq> [] \<and> MinisignKeyStr source \<noteq> [] \<and> CacheFile source \<noteq> [] \<and>
      FormatStr source \<noteq> [])"

definition missing_field :: "SourceConfig \<Rightarrow> string" where
  "missing_field source =
     (if URL source = [] then ''URL''
      else if MinisignKeyStr source = [] then ''Minisign key''
      else if CacheFile source = [] then ''cache file''
      else ''format'')"

text \<open>The configurations of the examples, as the decoder leaves them.\<close>

definition config_r1 :: Config where
  "config_r1 = newConfig\<lparr>ServersConfig := [(''r1'', demo_server [] ''1.2.3.4:443'')]\<rparr>"


definition config_legacy :: Config where
  "config_legacy =
     newConfig\<lparr>ServerNames := [''r1'', ''r3'', ''r2''],
                ServersConfig := [(''r1'', demo_server [] ''1.2.3.4:443''),
                                  (''r2'', demo_server ''sdns://AQ'' ''5.6.7.8:443''),
                                  (''r3'', demo_server [] [])]\<rparr>"

definition config_sources :: Config where
  "config_sources =
     newConfig\<lparr>ServerNames := [''a'', ''b''],
                SourcesConfig := [(''old'', demo_source ''https://example.com/v0.csv'' ''v0'' 72),
                                  (''gone'', demo_source ''https://example.com/gone.csv'' ''v1'' 72),
                                  (''public'', demo_source ''https://example.com/v1.csv'' ''v1'' 0)]\<rparr>"

definition config_failing :: Config where
  "config_failing =
     newConfig\<lparr>ServersConfig := [(''r1'', demo_server [] ''1.2.3.4:443'')],
                SourcesConfig := [(''old'', demo_source ''https://example.com/v0.csv'' ''v0'' 72),
                                  (''gone'', demo_source ''https://example.com/gone.csv'' ''v1'' 72)]\<rparr>"

definition config_missing :: Config where
  "config_missing =
     newConfig\<lparr>ServerNames := [''a''],
                SourcesConfig := [(''public'', demo_source ''https://example.com/v1.csv'' ''v1'' 0),
                                  (''broken'', (demo_source [] ''v1'' 72)\<lparr>CacheFile := []\<rparr>)]\<rparr>"

definition config_no_listen :: Config where
  "config_no_listen = config_missing\<lparr>ListenAddresses := []\<rparr>"

definition config_case :: Config where
  "config_case =
     newConfig\<lparr>ServerNames := [''a''],
                ServersConfig := [(''A'', demo_server [] ''1.2.3.4:443'')],
                SourcesConfig := [(''public'', demo_source ''https://example.com/v1.csv'' ''v1'' 24)]\<rparr>"

definition config_keys :: Config where
  "config_keys =
     newConfig\<lparr>ServersConfig := [(''x'', demo_server [] ''1.2.3.4:443''),
                                  (''y'', demo_server [] ''5.6.7.8:443'')]\<rparr>"

definition other_file :: "string \<Rightarrow> Config option" where
  "other_file path = (if path = ''other.toml'' then Some config_r1 else None)"

section \<open>Properties\<close>

subsection \<open>Facts about the loops\<close>

lemma includesName_iff: "includesName eqf names n \<longleftrightarrow> (\<exists>w\<in>set names. eqf w n)"
  by (induction names) auto

lemma append_keys_eq: "append_keys names servers = names @ map fst servers"
  by (induction names servers rule: append_keys.induct) auto

lemma register_servers_registered:
  "registeredServers (register_servers eqf names servers st) =
     registeredServers st @ filter (\<lambda>rs. includesName eqf names (name rs)) servers"
  by (induction servers arbitrary: st) auto

lemma sources_loop_append:
  "sources_loop e names (xs @ ys) st =
     (case sources_loop e names xs st of
        (Completed, st') \<Rightarrow> sources_loop e names ys st'
      | (Returned err, st') \<Rightarrow> (Returned err, st')
      | (Exited, st') \<Rightarrow> (Exited, st'))"
proof (induction xs arbitrary: st)
  case Nil
  show ?case by simp
next
  case (Cons x xs)
  obtain sn s where x: "x = (sn, s)" by (cases x)
  show ?case unfolding x by (simp add: Cons.IH split: sum.splits)
qed

lemma servers_loop_append:
  "servers_loop e servers (xs @ ys) st =
     (case servers_loop e servers xs st of
        (Completed, st') \<Rightarrow> servers_loop e servers ys st'
      | (Returned err, st') \<Rightarrow> (Returned err, st')
      | (Exited, st') \<Rightarrow> (Exited, st'))"
  by (induction xs arbitrary: st) (simp_all split: option.splits sum.splits)

lemma ConfigLoad_Completed:
  "ConfigLoad e proxy p = (Completed, st') \<Longrightarrow> registeredServers st' \<noteq> []"
  by (auto simp: ConfigLoad_def Let_def check_servers_def
           split: sum.splits if_splits prod.splits outcome.splits)

lemma ConfigLoad_passes:
  assumes "DecodeFile e (configFile e) newConfig = Inr config"
    and "ListenAddresses config \<noteq> []"
    and "sources_loop e (wantedNames config) (SourcesConfig config)
           (set_options config (set_transport config proxy)) = (Completed, st3)"
  shows "ConfigLoad e proxy p =
     (case servers_loop e (ServersConfig config) (wantedNames config) st3 of
        (Completed, st4) \<Rightarrow> check_servers st4
      | (Returned err, st4) \<Rightarrow> (Returned err, st4)
      | (Exited, st4) \<Rightarrow> (Exited, st4))"
  using assms by (simp add: ConfigLoad_def Let_def)

lemma ConfigLoad_servers_not_Completed:
  assumes "DecodeFile e (configFile e) newConfig = Inr config"
    and "\<And>st. fst (servers_loop e (ServersConfig config) (wantedNames config) st) \<noteq> Completed"
  shows "fst (ConfigLoad e proxy p) \<noteq> Completed"
proof (cases "ListenAddresses config = []")
  case True
  with assms(1) show ?thesis by (simp add: ConfigLoad_def Let_def)
next
  case False
  obtain o3 st3 where s: "sources_loop e (wantedNames config) (SourcesConfig config)
           (set_options config (set_transport config proxy)) = (o3, st3)"
    by (cases "sources_loop e (wantedNames config) (SourcesConfig config)
           (set_options config (set_transport config proxy))")
  obtain o4 st4 where l: "servers_loop e (ServersConfig config) (wantedNames config) st3 = (o4, st4)"
    by (cases "servers_loop e (ServersConfig config) (wantedNames config) st3")
  from assms(2)[of st3] l have "o4 \<noteq> Completed" by simp
  with assms(1) False s l show ?thesis
    by (cases o3; cases o4) (simp_all add: ConfigLoad_def Let_def)
qed

lemma ConfigLoad_sources_not_Completed:
  assumes "DecodeFile e (configFile e) newConfig = Inr config"
    and "ListenAddresses config \<noteq> []"
    and "sources_loop e (wantedNames config) (SourcesConfig config)
           (set_options config (set_transport config proxy)) = (Returned err, st3)"
  shows "ConfigLoad e proxy p = (Returned err, st3)"
  using assms by (simp add: ConfigLoad_def Let_def)

text \<open>
  Claim C1. Once the loop over the sources and the loop over the wanted names have both
  run to their end, \<^verbatim>\<open>ConfigLoad\<close> returns the error for an empty set of servers (the
  message of the code is \<^verbatim>\<open>No servers configured\<close>) exactly when the list of registered
  servers is empty, and returns \<^verbatim>\<open>nil\<close> exactly when it is not; the proxy is left as the
  second loop left it. Whatever the input, a run that returns \<^verbatim>\<open>nil\<close> leaves at least
  one registered server.
\<close>
theorem ConfigLoad_no_servers:
  "(DecodeFile e (configFile e) newConfig = Inr config \<and> ListenAddresses config \<noteq> [] \<and>
    sources_loop e (wantedNames config) (SourcesConfig config)
       (set_options config (set_transport config proxy)) = (Completed, st3) \<and>
    servers_loop e (ServersConfig config) (wantedNames config) st3 = (Completed, st4) \<longrightarrow>
      snd (ConfigLoad e proxy p) = st4 \<and>
      (fst (ConfigLoad e proxy p) = Returned ''No servers configured''
         \<longleftrightarrow> registeredServers st4 = []) \<and>
      (fst (ConfigLoad e proxy p) = Completed \<longleftrightarrow> registeredServers st4 \<noteq> [])) \<and>
   (fst (ConfigLoad e proxy p) = Completed \<longrightarrow>
      1 \<le> length (registeredServers (snd (ConfigLoad e proxy p))))"
proof -
  have a: "fst (ConfigLoad e proxy p) = Completed \<longrightarrow>
      1 \<le> length (registeredServers (snd (ConfigLoad e proxy p)))"
    using ConfigLoad_Completed[of e proxy p "snd (ConfigLoad e proxy p)"]
    by (cases "ConfigLoad e proxy p") (auto simp: Suc_le_eq)
  have b: "ConfigLoad e proxy p = check_servers st4"
    if "DecodeFile e (configFile e) newConfig = Inr config" "ListenAddresses config \<noteq> []"
     "sources_loop e (wantedNames config) (SourcesConfig config)
       (set_options config (set_transport config proxy)) = (Completed, st3)"
     "servers_loop e (ServersConfig config) (wantedNames config) st3 = (Completed, st4)"
    using that by (simp add: ConfigLoad_passes)
  show ?thesis using a b by (auto simp: check_servers_def)
qed

theorem ConfigLoad_no_servers_witness:
  "ConfigLoad (demo_env (\<lambda>path. Some config_r1)) proxy0 ''dnscrypt-proxy.toml'' =
     (Completed,
      (set_options config_r1 (set_transport config_r1 proxy0))
        \<lparr>registeredServers :=
           [\<lparr>name = ''r1'', stamp = (''1.2.3.4:443'', ''ABCD'', ''p.example'')\<rparr>]\<rparr>)"
proof -
  let ?e = "demo_env (\<lambda>path. Some config_r1)"
  let ?st3 = "set_options config_r1 (set_transport config_r1 proxy0)"
  let ?st4 = "?st3\<lparr>registeredServers :=
           [\<lparr>name = ''r1'', stamp = (''1.2.3.4:443'', ''ABCD'', ''p.example'')\<rparr>]\<rparr>"
  have h: "DecodeFile ?e (configFile ?e) newConfig = Inr config_r1 \<and>
     ListenAddresses config_r1 \<noteq> [] \<and>
     sources_loop ?e (wantedNames config_r1) (SourcesConfig config_r1) ?st3 = (Completed, ?st3) \<and>
     servers_loop ?e (ServersConfig config_r1) (wantedNames config_r1) ?st3 = (Completed, ?st4)"
    by (simp add: demo_env_def config_r1_def newConfig_def wantedNames_def demo_server_def
          set_options_def set_transport_def proxy0_def)
  have r: "registeredServers ?st4 \<noteq> []" by simp
  show ?thesis
    using ConfigLoad_no_servers[of ?e config_r1 proxy0 ?st3 ?st4 "''dnscrypt-proxy.toml''"] h r
    by (metis prod.collapse)
qed

text \<open>
  Claim C2. The claim is that the file decoded is the one at the path passed as
  \<^verbatim>\<open>config_file\<close>. The code never reads that parameter: it decodes the file the flag
  \<^verbatim>\<open>-config\<close> names, \<^verbatim>\<open>dnscrypt-proxy.toml\<close> when the flag is not given. Here the only
  readable file is \<^verbatim>\<open>other.toml\<close>, the flag is not given, and the call with the path
  \<^verbatim>\<open>other.toml\<close> fails on the missing \<^verbatim>\<open>dnscrypt-proxy.toml\<close>.
\<close>
theorem ConfigLoad_ignores_config_file:
  "ConfigLoad (demo_env other_file) proxy0 ''other.toml'' =
     (Returned ''open dnscrypt-proxy.toml: no such file or directory'', proxy0) \<and>
   DecodeFile (demo_env other_file) ''other.toml'' newConfig = Inr config_r1"
  by (simp add: ConfigLoad_def configFile_def demo_env_def other_file_def)

lemma servers_loop_not_Completed:
  assumes "n \<in> set names"
    and "\<And>st rest. fst (servers_loop e servers (n # rest) st) \<noteq> Completed"
  shows "fst (servers_loop e servers names st) \<noteq> Completed"
proof -
  from assms(1) obtain pre rest where names: "names = pre @ n # rest"
    by (auto dest: split_list)
  obtain o1 st1 where p: "servers_loop e servers pre st = (o1, st1)"
    by (cases "servers_loop e servers pre st")
  show ?thesis
    using assms(2)[of rest st1] p unfolding names servers_loop_append
    by (cases o1) simp_all
qed



lemma sources_loop_present:
  "fields_present source \<Longrightarrow>
   sources_loop e names ((sourceName, source) # rest) st =
     (case NewSource e (URL source) (MinisignKeyStr source) (CacheFile source)
             (FormatStr source) (refresh_delay source) of
        Inl err \<Rightarrow>
          sources_loop e names rest (st\<lparr>dlog := dlog st @ [unable_use sourceName err]\<rparr>)
      | Inr src \<Rightarrow>
          (case Parse e src of
             Inl err \<Rightarrow>
               sources_loop e names rest (st\<lparr>dlog := dlog st @ [unable_use sourceName err]\<rparr>)
           | Inr servers \<Rightarrow>
               sources_loop e names rest (register_servers (EqualFold e) names servers st)))"
  by (simp add: fields_present_def)

lemma sources_loop_missing:
  "\<not> fields_present source \<Longrightarrow>
   sources_loop e names ((sourceName, source) # rest) st =
     (Returned (''Missing '' @ missing_field source @ '' for source ['' @ sourceName @ '']''), st)"
  by (auto simp: fields_present_def missing_field_def)

lemma sources_loop_Completed:
  "\<forall>x\<in>set sources. fields_present (snd x) \<Longrightarrow>
   fst (sources_loop e names sources st) = Completed"
proof (induction sources arbitrary: st)
  case Nil
  show ?case by simp
next
  case (Cons x sources)
  obtain sn s where x: "x = (sn, s)" by (cases x)
  from Cons.prems have p: "fields_present s" and r: "\<forall>x\<in>set sources. fields_present (snd x)"
    by (simp_all add: x)
  show ?case unfolding x sources_loop_present[OF p]
    by (simp add: Cons.IH[OF r] split: sum.splits)
qed

text \<open>
  Claim C4. The loop over the servers a source has parsed appends to the registered
  servers exactly those whose name \<^verbatim>\<open>strings.EqualFold\<close> matches with some wanted name, in
  the order of the source, and drops the others; and a source whose fields are present,
  whose construction succeeds and whose parse succeeds contributes to the load through
  that loop.
\<close>
theorem register_servers_wanted:
  "registeredServers (register_servers eqf names servers st) =
     registeredServers st @ filter (\<lambda>rs. \<exists>w\<in>set names. eqf w (name rs)) servers \<and>
   (fields_present source \<and>
    NewSource e (URL source) (MinisignKeyStr source) (CacheFile source) (FormatStr source)
      (refresh_delay source) = Inr src \<and>
    Parse e src = Inr servers \<longrightarrow>
      sources_loop e names ((sourceName, source) # rest) st =
        sources_loop e names rest (register_servers (EqualFold e) names servers st))"
  by (simp add: register_servers_registered includesName_iff sources_loop_present
           del: sources_loop.simps)

theorem register_servers_wanted_witness:
  "registeredServers
     (snd (sources_loop (demo_env Map.empty) [''a'', ''b'']
             [(''public'', demo_source ''https://example.com/v1.csv'' ''v1'' 0)] proxy0)) =
   [\<lparr>name = ''A'', stamp = (''9.9.9.9:443'', ''AAAA'', ''a.example'')\<rparr>]"
proof -
  let ?e = "demo_env Map.empty"
  let ?s = "demo_source ''https://example.com/v1.csv'' ''v1'' 0"
  have h: "fields_present ?s \<and>
    NewSource ?e (URL ?s) (MinisignKeyStr ?s) (CacheFile ?s) (FormatStr ?s) (refresh_delay ?s) =
      Inr ''https://example.com/v1.csv'' \<and>
    Parse ?e ''https://example.com/v1.csv'' = Inr demo_servers"
    by (simp add: fields_present_def demo_source_def demo_env_def)
  have f: "filter (\<lambda>rs. \<exists>w\<in>set [''a'', ''b'']. ascii_EqualFold w (name rs)) demo_servers =
      [\<lparr>name = ''A'', stamp = (''9.9.9.9:443'', ''AAAA'', ''a.example'')\<rparr>]"
    by (simp add: demo_servers_def ascii_EqualFold_def ascii_lower_def)
  have q: "EqualFold ?e = ascii_EqualFold" by (simp add: demo_env_def)
  have p: "registeredServers proxy0 = []" by (simp add: proxy0_def)
  show ?thesis
    using register_servers_wanted[of ascii_EqualFold "[''a'', ''b'']" demo_servers proxy0 ?s ?e
        "''https://example.com/v1.csv''" "''public''" "[]"] h f
    by (simp add: q p del: sources_loop.simps(2))
qed

text \<open>
  Claim C5. When the loop over the wanted names reaches a name whose entry has an empty
  \<^verbatim>\<open>Stamp\<close> and \<^verbatim>\<open>NewServerStampFromLegacy\<close> fails on its address, public key and provider
  name, the loop returns that error at once: nothing is registered for the name and the
  names after it are not looked at. A configuration with such a wanted name never loads,
  and an error returned by this loop is the error \<^verbatim>\<open>ConfigLoad\<close> returns.
\<close>
theorem servers_loop_legacy_error:
  "(map_of servers n = Some serverConfig \<and> Stamp serverConfig = [] \<and>
    NewServerStampFromLegacy e (Address serverConfig) (PublicKey serverConfig)
      (ProviderName serverConfig) = Inl err \<longrightarrow>
      servers_loop e servers (n # rest) st = (Returned err, st) \<and>
      servers_loop e servers (pre @ n # rest) st =
        (case servers_loop e servers pre st of
           (Completed, st') \<Rightarrow> (Returned err, st')
         | (Returned err', st') \<Rightarrow> (Returned err', st')
         | (Exited, st') \<Rightarrow> (Exited, st'))) \<and>
   (DecodeFile e (configFile e) newConfig = Inr config \<and> n \<in> set (wantedNames config) \<and>
    map_of (ServersConfig config) n = Some serverConfig \<and> Stamp serverConfig = [] \<and>
    NewServerStampFromLegacy e (Address serverConfig) (PublicKey serverConfig)
      (ProviderName serverConfig) = Inl err \<longrightarrow>
      fst (ConfigLoad e proxy p) \<noteq> Completed) \<and>
   (DecodeFile e (configFile e) newConfig = Inr config \<and> ListenAddresses config \<noteq> [] \<and>
    sources_loop e (wantedNames config) (SourcesConfig config)
       (set_options config (set_transport config proxy)) = (Completed, st3) \<and>
    servers_loop e (ServersConfig config) (wantedNames config) st3 = (Returned err, st4) \<longrightarrow>
      ConfigLoad e proxy p = (Returned err, st4))"
proof -
  have step: "servers_loop e servers' (n # rest') st' = (Returned err, st')"
    if "map_of servers' n = Some serverConfig" "Stamp serverConfig = []"
      "NewServerStampFromLegacy e (Address serverConfig) (PublicKey serverConfig)
        (ProviderName serverConfig) = Inl err"
    for servers' rest' st'
    using that by simp
  have e2e: "fst (ConfigLoad e proxy p) \<noteq> Completed"
    if d: "DecodeFile e (configFile e) newConfig = Inr config"
      and n: "n \<in> set (wantedNames config)"
      and m: "map_of (ServersConfig config) n = Some serverConfig" "Stamp serverConfig = []"
        "NewServerStampFromLegacy e (Address serverConfig) (PublicKey serverConfig)
          (ProviderName serverConfig) = Inl err"
  proof (rule ConfigLoad_servers_not_Completed[OF d])
    fix st0
    show "fst (servers_loop e (ServersConfig config) (wantedNames config) st0) \<noteq> Completed"
      by (rule servers_loop_not_Completed[OF n]) (simp only: step[OF m] fst_conv, simp)
  qed
  have ret: "ConfigLoad e proxy p = (Returned err, st4)"
    if "DecodeFile e (configFile e) newConfig = Inr config" "ListenAddresses config \<noteq> []"
      "sources_loop e (wantedNames config) (SourcesConfig config)
         (set_options config (set_transport config proxy)) = (Completed, st3)"
      "servers_loop e (ServersConfig config) (wantedNames config) st3 = (Returned err, st4)"
    using that by (simp add: ConfigLoad_passes)
  show ?thesis
    using e2e ret by (auto simp: servers_loop_append split: prod.splits outcome.splits)
qed

theorem servers_loop_legacy_error_witness:
  "ConfigLoad (demo_env (\<lambda>path. Some config_legacy)) proxy0 ''dnscrypt-proxy.toml'' =
     (Returned ''Invalid stamp'',
      (set_options config_legacy (set_transport config_legacy proxy0))
        \<lparr>registeredServers :=
           [\<lparr>name = ''r1'', stamp = (''1.2.3.4:443'', ''ABCD'', ''p.example'')\<rparr>]\<rparr>)"
proof -
  let ?e = "demo_env (\<lambda>path. Some config_legacy)"
  let ?sc = "demo_server [] []"
  let ?st = "set_options config_legacy (set_transport config_legacy proxy0)"
  let ?st4 = "?st\<lparr>registeredServers :=
           [\<lparr>name = ''r1'', stamp = (''1.2.3.4:443'', ''ABCD'', ''p.example'')\<rparr>]\<rparr>"
  have h: "map_of (ServersConfig config_legacy) ''r3'' = Some ?sc \<and> Stamp ?sc = [] \<and>
      NewServerStampFromLegacy ?e (Address ?sc) (PublicKey ?sc) (ProviderName ?sc) =
        Inl ''Invalid stamp''"
    by (simp add: config_legacy_def demo_server_def demo_env_def newConfig_def)
  have pre: "servers_loop ?e (ServersConfig config_legacy) [''r1''] ?st = (Completed, ?st4)"
    by (simp add: config_legacy_def demo_server_def demo_env_def newConfig_def
          set_options_def set_transport_def proxy0_def)
  have w: "wantedNames config_legacy = [''r1''] @ ''r3'' # [''r2'']"
    by (simp add: wantedNames_def config_legacy_def newConfig_def)
  have d: "DecodeFile ?e (configFile ?e) newConfig = Inr config_legacy \<and>
      ListenAddresses config_legacy \<noteq> [] \<and>
      sources_loop ?e (wantedNames config_legacy) (SourcesConfig config_legacy) ?st =
        (Completed, ?st)"
    by (simp add: demo_env_def config_legacy_def newConfig_def)
  note t = servers_loop_legacy_error[of "ServersConfig config_legacy" "''r3''" ?sc ?e
        "''Invalid stamp''" "[''r2'']" ?st "[''r1'']" config_legacy proxy0
        "''dnscrypt-proxy.toml''" ?st ?st4]
  have l: "servers_loop ?e (ServersConfig config_legacy) (wantedNames config_legacy) ?st =
     (Returned ''Invalid stamp'', ?st4)"
    using t h pre unfolding w by simp
  show ?thesis
    using t d l by blast
qed

text \<open>
  Claim C6. For a declared source whose four fields are present, a failure of
  \<^verbatim>\<open>NewSource\<close> or of \<^verbatim>\<open>Parse\<close> adds one critical line to the log and nothing else: the
  loop goes on with the remaining sources from the same registered servers. The loop over
  sources whose fields are all present always runs to its end, whatever \<^verbatim>\<open>NewSource\<close> and
  \<^verbatim>\<open>Parse\<close> return. So the load is not aborted: when the configuration decodes, has a
  listen address and declares only sources whose fields are present, \<^verbatim>\<open>ConfigLoad\<close> goes
  on to the loop over the wanted names, from the state the loop over the sources left,
  and its result is the result of that loop followed by the check for an empty set of
  servers.
\<close>
theorem sources_loop_recoverable:
  "(fields_present source \<and>
    (NewSource e (URL source) (MinisignKeyStr source) (CacheFile source) (FormatStr source)
       (refresh_delay source) = Inl err \<or>
     (\<exists>src. NewSource e (URL source) (MinisignKeyStr source) (CacheFile source)
              (FormatStr source) (refresh_delay source) = Inr src \<and>
            Parse e src = Inl err)) \<longrightarrow>
      sources_loop e names ((sourceName, source) # rest) st =
        sources_loop e names rest (st\<lparr>dlog := dlog st @ [unable_use sourceName err]\<rparr>)) \<and>
   ((\<forall>x\<in>set sources. fields_present (snd x)) \<longrightarrow>
      fst (sources_loop e names sources st) = Completed) \<and>
   (DecodeFile e (configFile e) newConfig = Inr config \<and> ListenAddresses config \<noteq> [] \<and>
    (\<forall>x\<in>set (SourcesConfig config). fields_present (snd x)) \<longrightarrow>
      ConfigLoad e proxy p =
        (case servers_loop e (ServersConfig config) (wantedNames config)
                (snd (sources_loop e (wantedNames config) (SourcesConfig config)
                        (set_options config (set_transport config proxy)))) of
           (Completed, st4) \<Rightarrow> check_servers st4
         | (Returned err', st4) \<Rightarrow> (Returned err', st4)
         | (Exited, st4) \<Rightarrow> (Exited, st4)))"
proof -
  have step: "fields_present source \<and>
    (NewSource e (URL source) (MinisignKeyStr source) (CacheFile source) (FormatStr source)
       (refresh_delay source) = Inl err \<or>
     (\<exists>src. NewSource e (URL source) (MinisignKeyStr source) (CacheFile source)
              (FormatStr source) (refresh_delay source) = Inr src \<and>
            Parse e src = Inl err)) \<longrightarrow>
      sources_loop e names ((sourceName, source) # rest) st =
        sources_loop e names rest (st\<lparr>dlog := dlog st @ [unable_use sourceName err]\<rparr>)"
    by (auto simp: sources_loop_present simp del: sources_loop.simps)
  have load: "ConfigLoad e proxy p =
        (case servers_loop e (ServersConfig config) (wantedNames config)
                (snd (sources_loop e (wantedNames config) (SourcesConfig config)
                        (set_options config (set_transport config proxy)))) of
           (Completed, st4) \<Rightarrow> check_servers st4
         | (Returned err', st4) \<Rightarrow> (Returned err', st4)
         | (Exited, st4) \<Rightarrow> (Exited, st4))"
    if dec: "DecodeFile e (configFile e) newConfig = Inr config" "ListenAddresses config \<noteq> []"
      and pres: "\<forall>x\<in>set (SourcesConfig config). fields_present (snd x)"
  proof -
    let ?r = "sources_loop e (wantedNames config) (SourcesConfig config)
                (set_options config (set_transport config proxy))"
    from sources_loop_Completed[OF pres] have "fst ?r = Completed" .
    then have "?r = (Completed, snd ?r)" by (metis prod.collapse)
    from ConfigLoad_passes[OF dec this] show ?thesis .
  qed
  show ?thesis
    using step load by (simp add: sources_loop_Completed del: sources_loop.simps)
qed

theorem sources_loop_recoverable_witness:
  "sources_loop (demo_env Map.empty) [''a'', ''b''] (SourcesConfig config_sources) proxy0 =
     (Completed,
      proxy0\<lparr>registeredServers :=
                [\<lparr>name = ''A'', stamp = (''9.9.9.9:443'', ''AAAA'', ''a.example'')\<rparr>],
             dlog := [unable_use ''old'' ''Unsupported source format'',
                      unable_use ''gone'' ''Invalid signature'',
                      (SeverityInfo, ''Adding [A] to the set of wanted resolvers'')]\<rparr>) \<and>
   ConfigLoad (demo_env (\<lambda>path. Some config_failing)) proxy0 ''dnscrypt-proxy.toml'' =
     (Completed,
      (set_options config_failing (set_transport config_failing proxy0))
        \<lparr>registeredServers :=
           [\<lparr>name = ''r1'', stamp = (''1.2.3.4:443'', ''ABCD'', ''p.example'')\<rparr>],
         dlog := [unable_use ''old'' ''Unsupported source format'',
                  unable_use ''gone'' ''Invalid signature'']\<rparr>)"
proof -
  let ?e = "demo_env Map.empty"
  let ?old = "demo_source ''https://example.com/v0.csv'' ''v0'' 72"
  let ?gone = "demo_source ''https://example.com/gone.csv'' ''v1'' 72"
  let ?public = "demo_source ''https://example.com/v1.csv'' ''v1'' 0"
  let ?st1 = "proxy0\<lparr>dlog := dlog proxy0 @ [unable_use ''old'' ''Unsupported source format'']\<rparr>"
  have c: "SourcesConfig config_sources = [(''old'', ?old), (''gone'', ?gone), (''public'', ?public)]"
    by (simp add: config_sources_def newConfig_def)
  have h1: "fields_present ?old \<and>
      NewSource ?e (URL ?old) (MinisignKeyStr ?old) (CacheFile ?old) (FormatStr ?old)
        (refresh_delay ?old) = Inl ''Unsupported source format''"
    by (simp add: fields_present_def demo_source_def demo_env_def)
  have h2: "fields_present ?gone \<and>
      (\<exists>src. NewSource ?e (URL ?gone) (MinisignKeyStr ?gone) (CacheFile ?gone) (FormatStr ?gone)
        (refresh_delay ?gone) = Inr src \<and> Parse ?e src = Inl ''Invalid signature'')"
    by (simp add: fields_present_def demo_source_def demo_env_def)
  have s1: "sources_loop ?e [''a'', ''b''] [(''old'', ?old), (''gone'', ?gone), (''public'', ?public)] proxy0 =
      sources_loop ?e [''a'', ''b''] [(''gone'', ?gone), (''public'', ?public)] ?st1"
    using sources_loop_recoverable[of ?old ?e "''Unsupported source format''" "[''a'', ''b'']"
        "''old''" "[(''gone'', ?gone), (''public'', ?public)]" proxy0 "[]"] h1
    by blast
  have s2: "sources_loop ?e [''a'', ''b''] [(''gone'', ?gone), (''public'', ?public)] ?st1 =
      sources_loop ?e [''a'', ''b''] [(''public'', ?public)]
        (?st1\<lparr>dlog := dlog ?st1 @ [unable_use ''gone'' ''Invalid signature'']\<rparr>)"
    using sources_loop_recoverable[of ?gone ?e "''Invalid signature''" "[''a'', ''b'']"
        "''gone''" "[(''public'', ?public)]" ?st1 "[]"] h2
    by blast
  have a: "sources_loop ?e [''a'', ''b''] (SourcesConfig config_sources) proxy0 =
     (Completed,
      proxy0\<lparr>registeredServers :=
                [\<lparr>name = ''A'', stamp = (''9.9.9.9:443'', ''AAAA'', ''a.example'')\<rparr>],
             dlog := [unable_use ''old'' ''Unsupported source format'',
                      unable_use ''gone'' ''Invalid signature'',
                      (SeverityInfo, ''Adding [A] to the set of wanted resolvers'')]\<rparr>)"
    unfolding c s1 s2
    by (simp add: demo_source_def demo_env_def fields_present_def proxy0_def demo_servers_def
          ascii_EqualFold_def ascii_lower_def)
  let ?f = "demo_env (\<lambda>path. Some config_failing)"
  let ?st2 = "set_options config_failing (set_transport config_failing proxy0)"
  have h3: "DecodeFile ?f (configFile ?f) newConfig = Inr config_failing \<and>
      ListenAddresses config_failing \<noteq> [] \<and>
      (\<forall>x\<in>set (SourcesConfig config_failing). fields_present (snd x))"
    by (simp add: demo_env_def config_failing_def newConfig_def fields_present_def
          demo_source_def)
  have l: "sources_loop ?f (wantedNames config_failing) (SourcesConfig config_failing) ?st2 =
      (Completed, ?st2\<lparr>dlog := [unable_use ''old'' ''Unsupported source format'',
                                 unable_use ''gone'' ''Invalid signature'']\<rparr>)"
    by (simp add: demo_env_def config_failing_def newConfig_def demo_source_def
          set_options_def set_transport_def proxy0_def)
  have b: "ConfigLoad ?f proxy0 ''dnscrypt-proxy.toml'' =
     (Completed,
      ?st2\<lparr>registeredServers :=
           [\<lparr>name = ''r1'', stamp = (''1.2.3.4:443'', ''ABCD'', ''p.example'')\<rparr>],
         dlog := [unable_use ''old'' ''Unsupported source format'',
                  unable_use ''gone'' ''Invalid signature'']\<rparr>)"
    using sources_loop_recoverable[of ?old ?f "''Unsupported source format''"
        "wantedNames config_failing" "''old''" "[(''gone'', ?gone)]" ?st2 "[]" config_failing
        proxy0 "''dnscrypt-proxy.toml''"] h3
    unfolding l
    by (simp add: demo_env_def config_failing_def newConfig_def demo_server_def
          wantedNames_def check_servers_def set_options_def set_transport_def proxy0_def)
  show ?thesis using a b by simp
qed

text \<open>
  Claim C7. A declared source is checked for its URL, then its Minisign key, then its
  cache file, then its format; the first of them that is empty makes the loop return an
  error naming that field and the source, and this error is what \<^verbatim>\<open>ConfigLoad\<close> returns
  when the sources visited before had their fields. A refresh delay of zero or less is
  not an error: the source is handled as if its delay were 24, and \<^verbatim>\<open>NewSource\<close> receives
  24 hours, in nanoseconds.
\<close>
theorem sources_loop_validation:
  "(URL source = [] \<longrightarrow>
      sources_loop e names ((sourceName, source) # rest) st =
        (Returned (''Missing URL for source ['' @ sourceName @ '']''), st)) \<and>
   (URL source \<noteq> [] \<and> MinisignKeyStr source = [] \<longrightarrow>
      sources_loop e names ((sourceName, source) # rest) st =
        (Returned (''Missing Minisign key for source ['' @ sourceName @ '']''), st)) \<and>
   (URL source \<noteq> [] \<and> MinisignKeyStr source \<noteq> [] \<and> CacheFile source = [] \<longrightarrow>
      sources_loop e names ((sourceName, source) # rest) st =
        (Returned (''Missing cache file for source ['' @ sourceName @ '']''), st)) \<and>
   (URL source \<noteq> [] \<and> MinisignKeyStr source \<noteq> [] \<and> CacheFile source \<noteq> [] \<and>
    FormatStr source = [] \<longrightarrow>
      sources_loop e names ((sourceName, source) # rest) st =
        (Returned (''Missing format for source ['' @ sourceName @ '']''), st)) \<and>
   (fields_present source \<and> sint (RefreshDelay source) \<le> 0 \<longrightarrow>
      refresh_delay source = 24 * Hour \<and>
      sint (refresh_delay source) = 24 * 3600 * 1000000000 \<and>
      sources_loop e names ((sourceName, source) # rest) st =
        sources_loop e names ((sourceName, source\<lparr>RefreshDelay := 24\<rparr>) # rest) st) \<and>
   (fields_present source \<and> 0 < sint (RefreshDelay source) \<longrightarrow>
      refresh_delay source = RefreshDelay source * Hour) \<and>
   (DecodeFile e (configFile e) newConfig = Inr config \<and> ListenAddresses config \<noteq> [] \<and>
    SourcesConfig config = pre @ (sourceName, source) # rest \<and>
    (\<forall>x\<in>set pre. fields_present (snd x)) \<and> \<not> fields_present source \<longrightarrow>
      fst (ConfigLoad e proxy p) =
        Returned (''Missing '' @ missing_field source @ '' for source ['' @ sourceName @ '']''))"
proof -
  have d: "refresh_delay source = 24 * Hour" if "sint (RefreshDelay source) \<le> 0"
    using that by (simp add: refresh_delay_def)
  have d': "refresh_delay (source\<lparr>RefreshDelay := 24\<rparr>) = 24 * Hour"
    by (simp add: refresh_delay_def)
  have n: "sint (24 * Hour) = 24 * 3600 * 1000000000"
    by (simp add: Hour_def)
  have norm: "sources_loop e names ((sourceName, source) # rest) st =
        sources_loop e names ((sourceName, source\<lparr>RefreshDelay := 24\<rparr>) # rest) st"
    if "fields_present source" "sint (RefreshDelay source) \<le> 0"
  proof -
    from that(1) have "fields_present (source\<lparr>RefreshDelay := 24\<rparr>)"
      by (simp add: fields_present_def)
    then show ?thesis
      by (simp add: sources_loop_present that(1) d[OF that(2)] d' del: sources_loop.simps)
  qed
  have e2e: "fst (ConfigLoad e proxy p) =
        Returned (''Missing '' @ missing_field source @ '' for source ['' @ sourceName @ '']'')"
    if dec: "DecodeFile e (configFile e) newConfig = Inr config" "ListenAddresses config \<noteq> []"
      and src: "SourcesConfig config = pre @ (sourceName, source) # rest"
      and pre: "\<forall>x\<in>set pre. fields_present (snd x)" and miss: "\<not> fields_present source"
  proof -
    let ?st = "set_options config (set_transport config proxy)"
    obtain o1 st1 where p1: "sources_loop e (wantedNames config) pre ?st = (o1, st1)"
      by (cases "sources_loop e (wantedNames config) pre ?st")
    with sources_loop_Completed[OF pre, of e "wantedNames config" ?st]
    have o1: "o1 = Completed" by simp
    have "sources_loop e (wantedNames config) (SourcesConfig config) ?st =
      (Returned (''Missing '' @ missing_field source @ '' for source ['' @ sourceName @ '']''), st1)"
      unfolding src sources_loop_append p1 o1
      by (simp add: sources_loop_missing[OF miss] del: sources_loop.simps)
    from ConfigLoad_sources_not_Completed[OF dec this] show ?thesis by simp
  qed
  have pos: "refresh_delay source = RefreshDelay source * Hour" if "0 < sint (RefreshDelay source)"
    using that by (simp add: refresh_delay_def)
  show ?thesis
    using d n norm e2e pos by simp
qed

theorem sources_loop_validation_witness:
  "ConfigLoad (demo_env (\<lambda>path. Some config_missing)) proxy0 ''dnscrypt-proxy.toml'' =
     (Returned ''Missing URL for source [broken]'',
      (set_options config_missing (set_transport config_missing proxy0))
        \<lparr>registeredServers :=
           [\<lparr>name = ''A'', stamp = (''9.9.9.9:443'', ''AAAA'', ''a.example'')\<rparr>],
         dlog := [(SeverityInfo, ''Adding [A] to the set of wanted resolvers'')]\<rparr>) \<and>
   refresh_delay (demo_source ''https://example.com/v1.csv'' ''v1'' 0) = 86400000000000"
proof -
  let ?e = "demo_env (\<lambda>path. Some config_missing)"
  let ?public = "demo_source ''https://example.com/v1.csv'' ''v1'' 0"
  let ?broken = "(demo_source [] ''v1'' 72)\<lparr>CacheFile := []\<rparr>"
  note t = sources_loop_validation[of ?broken ?e "wantedNames config_missing" "''broken''" "[]"
      proxy0 config_missing "[(''public'', ?public)]" proxy0 "''dnscrypt-proxy.toml''"]
  note u = sources_loop_validation[of ?public ?e "[]" "''public''" "[]"
      proxy0 config_missing "[]" proxy0 "''dnscrypt-proxy.toml''"]
  have h: "DecodeFile ?e (configFile ?e) newConfig = Inr config_missing \<and>
      ListenAddresses config_missing \<noteq> [] \<and>
      SourcesConfig config_missing = [(''public'', ?public)] @ (''broken'', ?broken) # [] \<and>
      (\<forall>x\<in>set [(''public'', ?public)]. fields_present (snd x)) \<and> \<not> fields_present ?broken \<and>
      missing_field ?broken = ''URL''"
    by (simp add: demo_env_def config_missing_def newConfig_def fields_present_def
          demo_source_def missing_field_def)
  have f: "fst (ConfigLoad ?e proxy0 ''dnscrypt-proxy.toml'') =
      Returned ''Missing URL for source [broken]''"
    using t h by simp
  have g: "fields_present ?public \<and> sint (RefreshDelay ?public) \<le> 0"
    by (simp add: fields_present_def demo_source_def)
  have r: "refresh_delay ?public = 86400000000000"
    using u g by (simp add: Hour_def)
  have s: "snd (ConfigLoad ?e proxy0 ''dnscrypt-proxy.toml'') =
     (set_options config_missing (set_transport config_missing proxy0))
        \<lparr>registeredServers :=
           [\<lparr>name = ''A'', stamp = (''9.9.9.9:443'', ''AAAA'', ''a.example'')\<rparr>],
         dlog := [(SeverityInfo, ''Adding [A] to the set of wanted resolvers'')]\<rparr>"
    by (simp add: ConfigLoad_def configFile_def demo_env_def config_missing_def newConfig_def
          wantedNames_def demo_source_def refresh_delay_def set_options_def set_transport_def
          proxy0_def demo_servers_def ascii_EqualFold_def ascii_lower_def)
  show ?thesis using f s r by (metis prod.collapse)
qed

text \<open>
  Claim C8. When \<^verbatim>\<open>server_names\<close> is empty or absent, the wanted names are the keys of
  the table of servers, each key and nothing else, in the order the loop visits the
  table. The names a source brings are not added to them: a server of a source is
  registered only if its name matches a key of the table. A non-empty \<^verbatim>\<open>server_names\<close>
  is used as it is.
\<close>
theorem wantedNames_keys:
  "(ServerNames config = [] \<longrightarrow>
      wantedNames config = map fst (ServersConfig config) \<and>
      set (wantedNames config) = dom (map_of (ServersConfig config)) \<and>
      registeredServers (register_servers eqf (wantedNames config) servers st) =
        registeredServers st @
        filter (\<lambda>rs. \<exists>k\<in>dom (map_of (ServersConfig config)). eqf k (name rs)) servers) \<and>
   (ServerNames config \<noteq> [] \<longrightarrow> wantedNames config = ServerNames config)"
proof -
  have w: "wantedNames config = map fst (ServersConfig config)" if "ServerNames config = []"
    using that by (simp add: wantedNames_def append_keys_eq)
  have s: "set (map fst (ServersConfig config)) = dom (map_of (ServersConfig config))"
    by (simp add: dom_map_of_conv_image_fst)
  show ?thesis
    using w s by (simp add: register_servers_registered includesName_iff wantedNames_def)
qed

theorem wantedNames_keys_witness:
  "wantedNames config_keys = [''x'', ''y''] \<and>
   registeredServers (register_servers ascii_EqualFold (wantedNames config_keys) demo_servers
     proxy0) = []"
proof -
  have h: "ServerNames config_keys = []"
    by (simp add: config_keys_def newConfig_def)
  have k: "map fst (ServersConfig config_keys) = [''x'', ''y''] \<and>
      dom (map_of (ServersConfig config_keys)) = {''x'', ''y''}"
    by (auto simp: config_keys_def newConfig_def)
  show ?thesis
    using wantedNames_keys[of config_keys ascii_EqualFold demo_servers proxy0] h k
    by (simp add: proxy0_def demo_servers_def ascii_EqualFold_def ascii_lower_def)
qed

text \<open>
  Claim C9. When the decoded configuration has no listen address, \<^verbatim>\<open>ConfigLoad\<close> returns
  the error for it (the message of the code is \<^verbatim>\<open>No local IP/port configured\<close>) having set
  only the timeout, the protocol and the certificate refresh delay of the proxy: no
  source and no server has been looked at, nothing is registered and nothing is logged,
  whatever the declared sources and servers are.
\<close>
theorem ConfigLoad_no_listen_address:
  "DecodeFile e (configFile e) newConfig = Inr config \<and> ListenAddresses config = [] \<longrightarrow>
     ConfigLoad e proxy p =
       (Returned ''No local IP/port configured'', set_transport config proxy) \<and>
     registeredServers (snd (ConfigLoad e proxy p)) = registeredServers proxy \<and>
     dlog (snd (ConfigLoad e proxy p)) = dlog proxy"
  by (simp add: ConfigLoad_def Let_def set_transport_def)

theorem ConfigLoad_no_listen_address_witness:
  "ConfigLoad (demo_env (\<lambda>path. Some config_no_listen)) proxy0 ''dnscrypt-proxy.toml'' =
     (Returned ''No local IP/port configured'',
      proxy0\<lparr>timeout := 2500000000, mainProto := ''udp'', certRefreshDelay := 1800000000000\<rparr>)"
proof -
  let ?e = "demo_env (\<lambda>path. Some config_no_listen)"
  have h: "DecodeFile ?e (configFile ?e) newConfig = Inr config_no_listen \<and>
      ListenAddresses config_no_listen = []"
    by (simp add: demo_env_def config_no_listen_def)
  have s: "set_transport config_no_listen proxy0 =
      proxy0\<lparr>timeout := 2500000000, mainProto := ''udp'', certRefreshDelay := 1800000000000\<rparr>"
    by (simp add: set_transport_def config_no_listen_def config_missing_def newConfig_def
          Millisecond_def Minute_def)
  show ?thesis
    using ConfigLoad_no_listen_address[of ?e config_no_listen proxy0 "''dnscrypt-proxy.toml''"] h
    by (simp add: s)
qed

text \<open>
  Claim C10. A wanted name that is the key of no entry of the table of servers, compared
  by equality of strings, is passed over by the second loop without an error, a
  registered server or a line in the log, wherever it stands among the wanted names.
  \<^verbatim>\<open>strings.EqualFold\<close> plays no part in it, so a key that differs from the name by the
  case of a letter does not count, while the same pair matches for a server of a source.
\<close>
theorem servers_loop_exact_key:
  "(\<forall>entry\<in>set servers. fst entry \<noteq> n) \<longrightarrow>
     servers_loop e servers (n # rest) st = servers_loop e servers rest st \<and>
     servers_loop e servers (pre @ n # rest) st = servers_loop e servers (pre @ rest) st"
proof -
  have m: "map_of servers n = None" if "\<forall>entry\<in>set servers. fst entry \<noteq> n"
    using that by (auto simp: map_of_eq_None_iff)
  have s: "servers_loop e servers (n # rest) st' = servers_loop e servers rest st'"
    if "\<forall>entry\<in>set servers. fst entry \<noteq> n" for st'
    using m[OF that] by simp
  show ?thesis
    using s by (auto simp: servers_loop_append split: prod.splits outcome.splits
                simp del: servers_loop.simps)
qed

theorem servers_loop_exact_key_witness:
  "servers_loop (demo_env Map.empty) [(''A'', demo_server [] ''1.2.3.4:443'')] [''a''] proxy0 =
     (Completed, proxy0) \<and>
   includesName ascii_EqualFold [''a''] ''A'' \<and>
   ConfigLoad (demo_env (\<lambda>path. Some config_case)) proxy0 ''dnscrypt-proxy.toml'' =
     (Completed,
      (set_options config_case (set_transport config_case proxy0))
        \<lparr>registeredServers :=
           [\<lparr>name = ''A'', stamp = (''9.9.9.9:443'', ''AAAA'', ''a.example'')\<rparr>],
         dlog := [(SeverityInfo, ''Adding [A] to the set of wanted resolvers'')]\<rparr>)"
proof -
  let ?e = "demo_env Map.empty"
  let ?servers = "[(''A'', demo_server [] ''1.2.3.4:443'')]"
  have h: "\<forall>entry\<in>set ?servers. fst entry \<noteq> ''a''" by simp
  have a: "servers_loop ?e ?servers [''a''] proxy0 = (Completed, proxy0)"
    using servers_loop_exact_key[of ?servers "''a''" ?e "[]" proxy0 "[]"] h
    by (simp del: servers_loop.simps(2))
  have b: "includesName ascii_EqualFold [''a''] ''A''"
    by (simp add: ascii_EqualFold_def ascii_lower_def)
  have c: "ConfigLoad (demo_env (\<lambda>path. Some config_case)) proxy0 ''dnscrypt-proxy.toml'' =
     (Completed,
      (set_options config_case (set_transport config_case proxy0))
        \<lparr>registeredServers :=
           [\<lparr>name = ''A'', stamp = (''9.9.9.9:443'', ''AAAA'', ''a.example'')\<rparr>],
         dlog := [(SeverityInfo, ''Adding [A] to the set of wanted resolvers'')]\<rparr>)"
    by (simp add: ConfigLoad_def configFile_def demo_env_def config_case_def newConfig_def
          wantedNames_def demo_source_def refresh_delay_def set_options_def set_transport_def
          proxy0_def demo_servers_def ascii_EqualFold_def ascii_lower_def check_servers_def)
  show ?thesis using a b c by simp
qed


end
